theory Spec2Isabelle
  imports Complex_Main
begin

section \<open>Python values and errors\<close>

text \<open>
  The exceptions the modelled code can raise. \<open>TypeError\<close>, \<open>AttributeError\<close>,
  \<open>IndexError\<close> and \<open>KeyError\<close> are raised by the Python runtime itself;
  \<open>JSONDecodeError\<close> by \<^verbatim>\<open>json.loads\<close>; \<open>ValidationError\<close> by pydantic's
  \<^verbatim>\<open>parse_obj\<close>; \<open>InvocationError\<close> stands for whatever \<^verbatim>\<open>utils.run\<close> raises when
  the external process fails. \<open>UnavailableError\<close> is the error kind the specification
  names for reads on a handle that was never refreshed; no path of the source raises it.
\<close>

datatype error =
    TypeError
  | AttributeError
  | IndexError
  | KeyError
  | JSONDecodeError
  | ValidationError
  | InvocationError
  | UnavailableError

text \<open>
  A \<^verbatim>\<open>datetime\<close> is the number of microseconds since \<^verbatim>\<open>datetime.min\<close>; the difference
  of two of them is a \<^verbatim>\<open>timedelta\<close>, again in microseconds. A Python \<^verbatim>\<open>float\<close> is kept as
  the rational number it denotes.
\<close>

type_synonym datetime = int

definition datetime_min :: datetime where
  "datetime_min = 0"

datatype pyval = PyTimedelta int | PyFloat rat

text \<open>\<^verbatim>\<open>datetime.__sub__\<close> on two naive datetimes.\<close>

definition datetime_sub :: "datetime \<Rightarrow> datetime \<Rightarrow> pyval" where
  "datetime_sub a b = PyTimedelta (a - b)"

text \<open>
  The operator \<^verbatim>\<open><=\<close> of Python: \<^verbatim>\<open>timedelta.__le__\<close> answers for another timedelta and
  returns \<^verbatim>\<open>NotImplemented\<close> otherwise; \<^verbatim>\<open>float.__le__\<close> and the reflected
  \<^verbatim>\<open>float.__ge__\<close> answer for numbers only. When both sides decline, the
  interpreter raises \<^verbatim>\<open>TypeError\<close>.
\<close>

fun py_le :: "pyval \<Rightarrow> pyval \<Rightarrow> error + bool" where
  "py_le (PyTimedelta a) (PyTimedelta b) = Inr (a \<le> b)"
| "py_le (PyFloat a) (PyFloat b) = Inr (a \<le> b)"
| "py_le (PyTimedelta a) (PyFloat b) = Inl TypeError"
| "py_le (PyFloat a) (PyTimedelta b) = Inl TypeError"

text \<open>The value of the float literal \<^verbatim>\<open>0.2\<close>: the double nearest to one fifth.\<close>

definition float_0_2 :: rat where
  "float_0_2 = 3602879701896397 / 18014398509481984"

text \<open>
  What \<^verbatim>\<open>json.loads\<close> returns. A number keeps the text of its literal: the modelled
  code never computes with one.
\<close>

datatype json =
    JNull
  | JBool bool
  | JNumber string
  | JString string
  | JArray "json list"
  | JObject "(string \<times> json) list"

text \<open>
  The subscript \<^verbatim>\<open>[0]\<close> applied to a decoded JSON value: the first element of a list,
  the first character of a string, a lookup of the key \<^verbatim>\<open>0\<close> in a dict (whose keys are
  all strings, so it is never found), and a \<^verbatim>\<open>TypeError\<close> on anything else.
\<close>

fun py_getitem0 :: "json \<Rightarrow> error + json" where
  "py_getitem0 (JArray []) = Inl IndexError"
| "py_getitem0 (JArray (x # xs)) = Inr x"
| "py_getitem0 (JString []) = Inl IndexError"
| "py_getitem0 (JString (c # cs)) = Inr (JString [c])"
| "py_getitem0 (JObject kvs) = Inl KeyError"
| "py_getitem0 JNull = Inl TypeError"
| "py_getitem0 (JBool b) = Inl TypeError"
| "py_getitem0 (JNumber n) = Inl TypeError"





section \<open>The environment: subprocess, JSON decoder, model parser\<close>

record VolumeInspectResult =
  CreatedAt :: datetime
  Driver :: string
  Labels :: "(string \<times> string) list"
  Mountpoint :: string
  Name :: string
  Options :: "string option"
  Scope :: string

text \<open>
  The world is the log of the commands handed to \<^verbatim>\<open>utils.run\<close> so far, oldest first.
\<close>

type_synonym world = "string list list"

text \<open>
  The parts the sources import and do not define are parameters:
  \<open>run_out\<close> is what the external engine answers to a command given the commands run
  before it (\<^verbatim>\<open>utils.run\<close>), \<open>json_loads\<close> is \<^verbatim>\<open>json.loads\<close> and \<open>parse_obj\<close> is
  \<^verbatim>\<open>VolumeInspectResult.parse_obj\<close>.
\<close>

record env =
  run_out :: "world \<Rightarrow> string list \<Rightarrow> error + string"
  json_loads :: "string \<Rightarrow> error + json"
  parse_obj :: "json \<Rightarrow> error + VolumeInspectResult"

definition run :: "env \<Rightarrow> string list \<Rightarrow> world \<Rightarrow> (error + string) \<times> world" where
  "run E cmd w = (run_out E w cmd, w @ [cmd])"

section \<open>docker_cli_wrapper/volume.py: class Volume\<close>

record Volume =
  docker_cmd :: "string list"
  name :: string
  volume_inspect_result :: "VolumeInspectResult option"
  last_refreshed_time :: datetime

definition Volume_init :: "string list \<Rightarrow> string \<Rightarrow> Volume" where
  "Volume_init dc n =
     \<lparr>docker_cmd = dc, name = n, volume_inspect_result = None,
      last_refreshed_time = datetime_min\<rparr>"


text \<open>\<^verbatim>\<open>return (datetime.now() - self._last_refreshed_time) <= 0.2\<close>\<close>

definition Volume_needs_reload :: "Volume \<Rightarrow> datetime \<Rightarrow> error + bool" where
  "Volume_needs_reload v now =
     py_le (datetime_sub now (last_refreshed_time v)) (PyFloat float_0_2)"

definition Volume_reload :: "env \<Rightarrow> Volume \<Rightarrow> world \<Rightarrow> (error + unit) \<times> Volume \<times> world" where
  "Volume_reload E v w =
     (case run E (docker_cmd v @ [''volume'', ''inspect'', name v]) w of
        (Inl e, w') \<Rightarrow> (Inl e, v, w')
      | (Inr json_str, w') \<Rightarrow>
          (case json_loads E json_str of
             Inl e \<Rightarrow> (Inl e, v, w')
           | Inr decoded \<Rightarrow>
               (case py_getitem0 decoded of
                  Inl e \<Rightarrow> (Inl e, v, w')
                | Inr json_obj \<Rightarrow>
                    (case parse_obj E json_obj of
                       Inl e \<Rightarrow> (Inl e, v, w')
                     | Inr r \<Rightarrow> (Inr (), v\<lparr>volume_inspect_result := Some r\<rparr>, w')))))"

definition Volume_reload_if_necessary ::
  "env \<Rightarrow> Volume \<Rightarrow> datetime \<Rightarrow> world \<Rightarrow> (error + unit) \<times> Volume \<times> world" where
  "Volume_reload_if_necessary E v now w =
     (case Volume_needs_reload v now of
        Inl e \<Rightarrow> (Inl e, v, w)
      | Inr b \<Rightarrow> (if b then Volume_reload E v w else (Inr (), v, w)))"

text \<open>
  An attribute of the cached result; \<^verbatim>\<open>None.CreatedAt\<close> raises \<^verbatim>\<open>AttributeError\<close>.
\<close>

definition inspect_attr ::
  "(VolumeInspectResult \<Rightarrow> 'a) \<Rightarrow> VolumeInspectResult option \<Rightarrow> error + 'a" where
  "inspect_attr field cached =
     (case cached of None \<Rightarrow> Inl AttributeError | Some r \<Rightarrow> Inr (field r))"

definition Volume_created_at ::
  "env \<Rightarrow> Volume \<Rightarrow> datetime \<Rightarrow> world \<Rightarrow> (error + datetime) \<times> Volume \<times> world" where
  "Volume_created_at E v now w =
     (case Volume_reload_if_necessary E v now w of
        (Inl e, v', w') \<Rightarrow> (Inl e, v', w')
      | (Inr u, v', w') \<Rightarrow> (inspect_attr CreatedAt (volume_inspect_result v'), v', w'))"

definition Volume_driver ::
  "env \<Rightarrow> Volume \<Rightarrow> datetime \<Rightarrow> world \<Rightarrow> (error + string) \<times> Volume \<times> world" where
  "Volume_driver E v now w =
     (case Volume_reload_if_necessary E v now w of
        (Inl e, v', w') \<Rightarrow> (Inl e, v', w')
      | (Inr u, v', w') \<Rightarrow> (inspect_attr Driver (volume_inspect_result v'), v', w'))"

text \<open>
  The handle and the world after reading one of the two properties of a \<^verbatim>\<open>Volume\<close>,
  whatever the read returned or raised.
\<close>

datatype attribute = Attr_created_at | Attr_driver

definition after_read ::
  "env \<Rightarrow> attribute \<Rightarrow> Volume \<Rightarrow> datetime \<Rightarrow> world \<Rightarrow> Volume \<times> world" where
  "after_read E a v now w =
     (case a of
        Attr_created_at \<Rightarrow> snd (Volume_created_at E v now w)
      | Attr_driver \<Rightarrow> snd (Volume_driver E v now w))"

section \<open>docker_cli_wrapper/volume.py: class VolumeCLI\<close>

text \<open>
  A Python \<^verbatim>\<open>Dict[str, str]\<close> is the list of its items in insertion order, which is the
  order \<^verbatim>\<open>.items()\<close> yields them in. \<^verbatim>\<open>Union[T, List[T]]\<close> is a tagged union: \<open>Many\<close>
  is the case \<^verbatim>\<open>isinstance(x, list)\<close>.
\<close>

type_synonym str_dict = "(string \<times> string) list"

datatype 'a one_or_list = Single 'a | Many "'a list"




definition VolumeCLI_make_cli_cmd :: "string list \<Rightarrow> string list" where
  "VolumeCLI_make_cli_cmd dc = dc @ [''volume'']"

text \<open>The command \<^verbatim>\<open>VolumeCLI.create\<close> has built when it calls \<^verbatim>\<open>run\<close>.\<close>

definition VolumeCLI_create_cmd ::
  "string list \<Rightarrow> string option \<Rightarrow> string option \<Rightarrow> str_dict \<Rightarrow> str_dict \<Rightarrow> string list" where
  "VolumeCLI_create_cmd dc volume_name driver labels options =
     (let full_cmd = VolumeCLI_make_cli_cmd dc @ [''create''];
          full_cmd = (case volume_name of None \<Rightarrow> full_cmd | Some n \<Rightarrow> full_cmd @ [n]);
          full_cmd = (case driver of None \<Rightarrow> full_cmd | Some d \<Rightarrow> full_cmd @ [''--driver'', d]);
          full_cmd = fold (\<lambda>(key, value) c. c @ [''--label'', key @ ''='' @ value]) labels full_cmd;
          full_cmd = fold (\<lambda>(key, value) c. c @ [''--opt'', key @ ''='' @ value]) options full_cmd
      in full_cmd)"

definition VolumeCLI_create ::
  "env \<Rightarrow> string list \<Rightarrow> string option \<Rightarrow> string option \<Rightarrow> str_dict \<Rightarrow> str_dict \<Rightarrow> world
     \<Rightarrow> (error + Volume) \<times> world" where
  "VolumeCLI_create E dc volume_name driver labels options w =
     (case run E (VolumeCLI_create_cmd dc volume_name driver labels options) w of
        (Inl e, w') \<Rightarrow> (Inl e, w')
      | (Inr out, w') \<Rightarrow> (Inr (Volume_init dc out), w'))"



section \<open>python_on_whales/components/network.py: class NetworkCLI\<close>






text \<open>
  The constructor \<^verbatim>\<open>Network(self.client_config, reference, is_immutable_id)\<close> runs
  \<^verbatim>\<open>ReloadableObjectFromJson.__init__\<close>, which is outside these sources: it is a
  parameter that may raise and may talk to the engine.
\<close>

type_synonym 'h ctor = "string \<Rightarrow> bool \<Rightarrow> world \<Rightarrow> (error + 'h) \<times> world"

text \<open>
  The list comprehension \<^verbatim>\<open>[Network(self.client_config, r, is_immutable_id=b) for r in rs]\<close>:
  the handles are built in order and the first exception ends it.
\<close>

fun build_handles :: "'h ctor \<Rightarrow> bool \<Rightarrow> string list \<Rightarrow> world \<Rightarrow> (error + 'h list) \<times> world" where
  "build_handles mk b [] w = (Inr [], w)"
| "build_handles mk b (r # rs) w =
     (case mk r b w of
        (Inl e, w') \<Rightarrow> (Inl e, w')
      | (Inr h, w') \<Rightarrow>
          (case build_handles mk b rs w' of
             (Inl e, w'') \<Rightarrow> (Inl e, w'')
           | (Inr hs, w'') \<Rightarrow> (Inr (h # hs), w'')))"

text \<open>
  The world the constructor leaves after it was called on the references \<open>rs\<close>, one
  after the other, starting in the world \<open>w\<close>.
\<close>

definition ctor_world :: "'h ctor \<Rightarrow> bool \<Rightarrow> string list \<Rightarrow> world \<Rightarrow> world" where
  "ctor_world mk b rs w = fold (\<lambda>r u. snd (mk r b u)) rs w"



datatype 'h inspected = OneNetwork 'h | NetworkList "'h list"

definition NetworkCLI_inspect ::
  "'h ctor \<Rightarrow> string one_or_list \<Rightarrow> world \<Rightarrow> (error + 'h inspected) \<times> world" where
  "NetworkCLI_inspect mk x w =
     (case x of
        Single r \<Rightarrow>
          (case mk r False w of
             (Inl e, w') \<Rightarrow> (Inl e, w')
           | (Inr h, w') \<Rightarrow> (Inr (OneNetwork h), w'))
      | Many rs \<Rightarrow>
          (case build_handles mk False rs w of
             (Inl e, w') \<Rightarrow> (Inl e, w')
           | (Inr hs, w') \<Rightarrow> (Inr (NetworkList hs), w')))"



section \<open>Sample inputs\<close>

text \<open>
  The text of a JSON string literal without escapes, and what an engine prints for
  \<^verbatim>\<open>volume inspect vol1\<close>: an array holding the description of one volume.
\<close>

definition quoted :: "string \<Rightarrow> string" where
  "quoted s = CHR 0x22 # s @ [CHR 0x22]"

definition sample_output :: string where
  "sample_output =
     ''[{'' @ quoted ''CreatedAt'' @ '': '' @ quoted ''2020-01-01T00:00:00'' @ '', '' @
     quoted ''Driver'' @ '': '' @ quoted ''local'' @ '', '' @
     quoted ''Labels'' @ '': {}, '' @
     quoted ''Mountpoint'' @ '': '' @ quoted ''/var/lib/docker/volumes/vol1/_data'' @ '', '' @
     quoted ''Name'' @ '': '' @ quoted ''vol1'' @ '', '' @
     quoted ''Options'' @ '': null, '' @
     quoted ''Scope'' @ '': '' @ quoted ''local'' @ ''}]''"

definition sample_object :: json where
  "sample_object =
     JObject [(''CreatedAt'', JString ''2020-01-01T00:00:00''), (''Driver'', JString ''local''),
              (''Labels'', JObject []),
              (''Mountpoint'', JString ''/var/lib/docker/volumes/vol1/_data''),
              (''Name'', JString ''vol1''), (''Options'', JNull), (''Scope'', JString ''local'')]"

definition sample_result :: VolumeInspectResult where
  "sample_result =
     \<lparr>CreatedAt = 63713433600000000, Driver = ''local'', Labels = [],
      Mountpoint = ''/var/lib/docker/volumes/vol1/_data'', Name = ''vol1'',
      Options = None, Scope = ''local''\<rparr>"

text \<open>
  An engine that answers every command with that text, a decoder that decodes that text
  and rejects every other, a parser that accepts that object and rejects every other,
  and a point in time: the first second of 2020, in microseconds since \<^verbatim>\<open>datetime.min\<close>.
\<close>

definition sample_env :: env where
  "sample_env =
     \<lparr>run_out = (\<lambda>w cmd. Inr sample_output),
      json_loads = (\<lambda>s. if s = sample_output then Inr (JArray [sample_object])
                         else Inl JSONDecodeError),
      parse_obj = (\<lambda>j. if j = sample_object then Inr sample_result
                        else Inl ValidationError)\<rparr>"

definition sample_now :: datetime where
  "sample_now = 63713433600000000"


definition eager_ctor :: "env \<Rightarrow> string list \<Rightarrow> (string \<times> bool) ctor" where
  "eager_ctor E dc r b w =
     (if b then (Inr (r, b), w)
      else (case run E (dc @ [''network'', ''inspect'', r]) w of
              (Inl e, w') \<Rightarrow> (Inl e, w')
            | (Inr out, w') \<Rightarrow> (Inr (r, b), w')))"

section \<open>Auxiliary facts\<close>

lemma needs_reload_raises: "Volume_needs_reload v now = Inl TypeError"
  by (simp add: Volume_needs_reload_def datetime_sub_def)

lemma reload_if_necessary_raises:
  "Volume_reload_if_necessary E v now w = (Inl TypeError, v, w)"
  by (simp add: Volume_reload_if_necessary_def needs_reload_raises)

lemma created_at_raises: "Volume_created_at E v now w = (Inl TypeError, v, w)"
  by (simp add: Volume_created_at_def reload_if_necessary_raises)

lemma driver_raises: "Volume_driver E v now w = (Inl TypeError, v, w)"
  by (simp add: Volume_driver_def reload_if_necessary_raises)


lemma fold_append_items:
  "fold (\<lambda>(k, v) c. c @ g k v) kvs acc = acc @ concat (map (\<lambda>(k, v). g k v) kvs)"
  by (induction kvs arbitrary: acc) (simp_all add: case_prod_beta)

lemma after_read_unchanged: "after_read E a v now w = (v, w)"
  by (cases a) (simp_all add: after_read_def created_at_raises driver_raises)

lemma reload_world:
  "snd (snd (Volume_reload E v w)) = w @ [docker_cmd v @ [''volume'', ''inspect'', name v]]"
  by (simp add: Volume_reload_def run_def split: sum.splits)

lemma reload_cases:
  "Volume_reload E v w =
     (case run_out E w (docker_cmd v @ [''volume'', ''inspect'', name v]) of
        Inl e \<Rightarrow> (Inl e, v, w @ [docker_cmd v @ [''volume'', ''inspect'', name v]])
      | Inr s \<Rightarrow>
          (case json_loads E s of
             Inl e \<Rightarrow> (Inl e, v, w @ [docker_cmd v @ [''volume'', ''inspect'', name v]])
           | Inr d \<Rightarrow>
               (case py_getitem0 d of
                  Inl e \<Rightarrow> (Inl e, v, w @ [docker_cmd v @ [''volume'', ''inspect'', name v]])
                | Inr j \<Rightarrow>
                    (case parse_obj E j of
                       Inl e \<Rightarrow> (Inl e, v, w @ [docker_cmd v @ [''volume'', ''inspect'', name v]])
                     | Inr r \<Rightarrow>
                         (Inr (), v\<lparr>volume_inspect_result := Some r\<rparr>,
                          w @ [docker_cmd v @ [''volume'', ''inspect'', name v]])))))"
  by (simp add: Volume_reload_def run_def split: sum.splits)

lemma reload_failure_keeps_handle:
  "fst (Volume_reload E v w) = Inl e \<Longrightarrow> fst (snd (Volume_reload E v w)) = v"
  by (auto simp: reload_cases split: sum.splits)

lemma ctor_world_Nil: "ctor_world mk b [] w = w"
  by (simp add: ctor_world_def)

lemma ctor_world_Cons: "ctor_world mk b (r # rs) w = ctor_world mk b rs (snd (mk r b w))"
  by (simp add: ctor_world_def)

lemma all_less_Suc_split: "(\<forall>i<Suc n. P i) \<longleftrightarrow> P 0 \<and> (\<forall>i<n. P (Suc i))"
  by (auto simp: less_Suc_eq_0_disj)

lemma build_handles_iff:
  "build_handles mk b rs w = (Inr hs, w') \<longleftrightarrow>
     length hs = length rs \<and> w' = ctor_world mk b rs w \<and>
     (\<forall>i<length rs. fst (mk (rs ! i) b (ctor_world mk b (take i rs) w)) = Inr (hs ! i))"
proof (induction rs arbitrary: w hs)
  case Nil
  then show ?case by (auto simp: ctor_world_Nil)
next
  case (Cons r rs)
  obtain x w1 where m: "mk r b w = (x, w1)" by (cases "mk r b w")
  show ?case
  proof (cases x)
    case (Inl e)
    with m show ?thesis by (auto simp: all_less_Suc_split ctor_world_Nil)
  next
    case (Inr h)
    show ?thesis
    proof (cases hs)
      case Nil
      with m Inr show ?thesis by (auto split: prod.splits sum.splits)
    next
      case (Cons h' hs')
      with m Inr Cons.IH [of w1 hs'] show ?thesis
        by (auto simp: all_less_Suc_split ctor_world_Nil ctor_world_Cons
            split: prod.splits sum.splits)
    qed
  qed
qed

lemma build_handles_total:
  "(\<forall>i<length rs. \<exists>h. fst (mk (rs ! i) b (ctor_world mk b (take i rs) w)) = Inr h) \<Longrightarrow>
     \<exists>hs. build_handles mk b rs w = (Inr hs, ctor_world mk b rs w)"
proof (induction rs arbitrary: w)
  case Nil
  then show ?case by (simp add: ctor_world_Nil)
next
  case (Cons r rs)
  from Cons.prems obtain h where h: "fst (mk r b w) = Inr h"
    by (auto simp: all_less_Suc_split ctor_world_Nil)
  then obtain w1 where m: "mk r b w = (Inr h, w1)" by (cases "mk r b w") auto
  from Cons.prems m
  have "\<forall>i<length rs. \<exists>h. fst (mk (rs ! i) b (ctor_world mk b (take i rs) w1)) = Inr h"
    by (auto simp: all_less_Suc_split ctor_world_Cons)
  from Cons.IH [OF this] obtain hs where
    "build_handles mk b rs w1 = (Inr hs, ctor_world mk b rs w1)" by blast
  with m show ?case by (simp add: ctor_world_Cons)
qed

lemma build_handles_first_failure:
  "k < length rs \<Longrightarrow>
   (\<forall>i<k. \<exists>h. fst (mk (rs ! i) b (ctor_world mk b (take i rs) w)) = Inr h) \<Longrightarrow>
   fst (mk (rs ! k) b (ctor_world mk b (take k rs) w)) = Inl e \<Longrightarrow>
     build_handles mk b rs w = (Inl e, ctor_world mk b (take (Suc k) rs) w)"
proof (induction rs arbitrary: w k)
  case Nil
  then show ?case by simp
next
  case (Cons r rs)
  show ?case
  proof (cases k)
    case 0
    with Cons.prems show ?thesis
      by (cases "mk r b w") (auto simp: ctor_world_Nil ctor_world_Cons)
  next
    case (Suc j)
    with Cons.prems obtain h where h: "fst (mk r b w) = Inr h"
      by (auto simp: all_less_Suc_split ctor_world_Nil)
    then obtain w1 where m: "mk r b w = (Inr h, w1)" by (cases "mk r b w") auto
    from Cons.prems Suc m have
      "j < length rs"
      "\<forall>i<j. \<exists>h. fst (mk (rs ! i) b (ctor_world mk b (take i rs) w1)) = Inr h"
      "fst (mk (rs ! j) b (ctor_world mk b (take j rs) w1)) = Inl e"
      by (auto simp: all_less_Suc_split ctor_world_Cons)
    from Cons.IH [OF this] m Suc show ?thesis
      by (simp add: ctor_world_Cons)
  qed
qed










lemma inspect_many_iff:
  "NetworkCLI_inspect mk (Many rs) w = (Inr y, w') \<longleftrightarrow>
     (\<exists>hs. y = NetworkList hs \<and> length hs = length rs \<and>
        w' = ctor_world mk False rs w \<and>
        (\<forall>i<length rs.
           fst (mk (rs ! i) False (ctor_world mk False (take i rs) w)) = Inr (hs ! i)))"
proof -
  have "NetworkCLI_inspect mk (Many rs) w = (Inr y, w') \<longleftrightarrow>
      (\<exists>hs. y = NetworkList hs \<and> build_handles mk False rs w = (Inr hs, w'))"
    by (auto simp: NetworkCLI_inspect_def split: prod.splits sum.splits)
  then show ?thesis by (simp add: build_handles_iff)
qed

lemma inspect_many_total:
  assumes "\<forall>i<length rs. \<exists>h.
     fst (mk (rs ! i) False (ctor_world mk False (take i rs) w)) = Inr h"
  shows "\<exists>hs. NetworkCLI_inspect mk (Many rs) w =
           (Inr (NetworkList hs), ctor_world mk False rs w) \<and>
         length hs = length rs \<and>
         (\<forall>i<length rs.
            fst (mk (rs ! i) False (ctor_world mk False (take i rs) w)) = Inr (hs ! i))"
proof -
  from build_handles_total [OF assms] obtain hs where
    b: "build_handles mk False rs w = (Inr hs, ctor_world mk False rs w)" by blast
  then have "NetworkCLI_inspect mk (Many rs) w = (Inr (NetworkList hs), ctor_world mk False rs w)"
    by (simp add: NetworkCLI_inspect_def)
  with b show ?thesis by (auto simp: build_handles_iff)
qed

lemma inspect_many_failure:
  assumes "k < length rs"
    and "\<forall>i<k. \<exists>h. fst (mk (rs ! i) False (ctor_world mk False (take i rs) w)) = Inr h"
    and "fst (mk (rs ! k) False (ctor_world mk False (take k rs) w)) = Inl e"
  shows "NetworkCLI_inspect mk (Many rs) w = (Inl e, ctor_world mk False (take (Suc k) rs) w)"
  using build_handles_first_failure [OF assms]
  by (simp add: NetworkCLI_inspect_def)








lemma create_cmd_eq:
  "VolumeCLI_create_cmd dc vn drv labels opts =
     dc @ [''volume'', ''create''] @
     (case vn of None \<Rightarrow> [] | Some n \<Rightarrow> [n]) @
     (case drv of None \<Rightarrow> [] | Some d \<Rightarrow> [''--driver'', d]) @
     concat (map (\<lambda>(k, v). [''--label'', k @ ''='' @ v]) labels) @
     concat (map (\<lambda>(k, v). [''--opt'', k @ ''='' @ v]) opts)"
  by (simp add: VolumeCLI_create_cmd_def VolumeCLI_make_cli_cmd_def Let_def fold_append_items
      split: option.splits)




lemma label_pair_in_concat:
  assumes "(k, v) \<in> set labels"
  shows "\<exists>pre post. concat (map (\<lambda>(k, v). [''--label'', k @ ''='' @ v]) labels) =
           pre @ [''--label'', k @ ''='' @ v] @ post"
proof -
  from assms obtain ys zs where "labels = ys @ (k, v) # zs"
    by (auto simp: in_set_conv_decomp)
  then have "concat (map (\<lambda>(k, v). [''--label'', k @ ''='' @ v]) labels) =
      concat (map (\<lambda>(k, v). [''--label'', k @ ''='' @ v]) ys) @ [''--label'', k @ ''='' @ v] @
      concat (map (\<lambda>(k, v). [''--label'', k @ ''='' @ v]) zs)"
    by simp
  then show ?thesis by blast
qed

lemma create_cmd_has_label:
  assumes "(k, v) \<in> set labels"
  shows "\<exists>pre post. VolumeCLI_create_cmd dc vn drv labels opts =
           pre @ [''--label'', k @ ''='' @ v] @ post"
proof -
  from label_pair_in_concat [OF assms] obtain p q where
    pq: "concat (map (\<lambda>(k, v). [''--label'', k @ ''='' @ v]) labels) =
           p @ [''--label'', k @ ''='' @ v] @ q"
    by blast
  have "VolumeCLI_create_cmd dc vn drv labels opts =
      (dc @ [''volume'', ''create''] @
       (case vn of None \<Rightarrow> [] | Some n \<Rightarrow> [n]) @
       (case drv of None \<Rightarrow> [] | Some d \<Rightarrow> [''--driver'', d]) @ p) @
      [''--label'', k @ ''='' @ v] @
      (q @ concat (map (\<lambda>(k, v). [''--opt'', k @ ''='' @ v]) opts))"
    using pq by (simp add: create_cmd_eq)
  then show ?thesis by blast
qed

section \<open>The lazy-refresh handle\<close>

text \<open>
  Claim C1 asks that \<^verbatim>\<open>needs_reload()\<close> answer true exactly when more than 0.2 time
  units have passed since the last refresh. The source compares a \<^verbatim>\<open>timedelta\<close> with
  the float \<^verbatim>\<open>0.2\<close>, so it answers nothing: on a handle that was never refreshed, read
  in the year 2020, where the claim expects \<open>True\<close>, the call raises \<^verbatim>\<open>TypeError\<close>.
\<close>

theorem needs_reload_at_fresh_handle:
  "Volume_needs_reload (Volume_init [''docker''] ''vol1'') sample_now = Inl TypeError"
  by (simp add: needs_reload_raises)

text \<open>
  Claim C2: for every \<^verbatim>\<open>Volume\<close> handle, at every time and in every world, reading
  \<^verbatim>\<open>created_at\<close> or \<^verbatim>\<open>driver\<close> raises \<^verbatim>\<open>TypeError\<close> out of \<^verbatim>\<open>_needs_reload\<close>; the
  handle is left as it was and no command reaches the engine, so neither a freshness
  decision nor a reload takes place.
\<close>

theorem attribute_access_raises_TypeError:
  "Volume_created_at E v now w = (Inl TypeError, v, w) \<and>
   Volume_driver E v now w = (Inl TypeError, v, w)"
  by (simp add: created_at_raises driver_raises)

text \<open>
  Claim C3 asks that \<^verbatim>\<open>reload()\<close> run the inspect command, take the first element of the
  decoded array, replace the cached result with its parse and set the time of the last
  refresh to now. On a new handle and an engine that answers with one object, the source
  does the first three and leaves \<^verbatim>\<open>_last_refreshed_time\<close> at \<^verbatim>\<open>datetime.min\<close>: \<^verbatim>\<open>reload\<close>
  never reads the clock and never assigns the field.
\<close>

theorem reload_leaves_timestamp:
  "Volume_reload sample_env (Volume_init [''docker''] ''vol1'') [] =
     (Inr (),
      \<lparr>docker_cmd = [''docker''], name = ''vol1'',
       volume_inspect_result = Some sample_result,
       last_refreshed_time = datetime_min\<rparr>,
      [[''docker'', ''volume'', ''inspect'', ''vol1'']])"
  by (simp add: reload_cases sample_env_def Volume_init_def)

text \<open>
  Claim C4: after one \<^verbatim>\<open>reload()\<close>, which hands exactly one inspect command to the
  subprocess layer, two attribute reads (each of \<^verbatim>\<open>created_at\<close> or \<^verbatim>\<open>driver\<close>, at any
  times \<open>t1\<close> and \<open>t2\<close>, hence also at times inside the debounce window) add no command
  to the log: no second refresh is triggered.
\<close>

theorem reads_after_reload_do_not_refresh:
  "(let (r0, v0, w0) = Volume_reload E v w;
        (v1, w1) = after_read E a1 v0 t1 w0;
        (v2, w2) = after_read E a2 v1 t2 w1
    in w0 = w @ [docker_cmd v @ [''volume'', ''inspect'', name v]] \<and> w1 = w0 \<and> w2 = w0)"
  using reload_world [of E v w]
  by (auto simp: after_read_unchanged split: prod.splits)

text \<open>
  Claim C5 asks that a read made after the debounce window has passed trigger exactly
  one refresh and then return the attribute. On a handle last refreshed at
  \<^verbatim>\<open>datetime.min\<close> and read in the year 2020 the source raises \<^verbatim>\<open>TypeError\<close>: the log
  of commands stays empty and no value is returned.
\<close>

theorem stale_read_does_not_refresh:
  "Volume_created_at sample_env (Volume_init [''docker''] ''vol1'') sample_now [] =
     (Inl TypeError, Volume_init [''docker''] ''vol1'', [])"
  by (simp add: created_at_raises)

text \<open>
  Claim C6 asks that a failed \<^verbatim>\<open>reload()\<close> raise its error and leave the cached result
  as it was, and that a read on a handle that was never successfully refreshed fail with
  an \<open>UnavailableError\<close>. On a new handle whose engine fails, the source does the first:
  \<^verbatim>\<open>reload()\<close> raises the error of the engine, the handle is the one \<^verbatim>\<open>__init__\<close> built
  and its cache is still absent. The read of \<^verbatim>\<open>created_at\<close> that follows does not fail
  with \<open>UnavailableError\<close>: it raises \<^verbatim>\<open>TypeError\<close> out of \<^verbatim>\<open>_needs_reload\<close>, from the
  comparison of a \<^verbatim>\<open>timedelta\<close> with a float, before the absent cache is looked at.
\<close>

theorem failed_reload_then_read:
  "Volume_reload (sample_env\<lparr>run_out := (\<lambda>w cmd. Inl InvocationError)\<rparr>)
      (Volume_init [''docker''] ''vol1'') [] =
     (Inl InvocationError, Volume_init [''docker''] ''vol1'',
      [[''docker'', ''volume'', ''inspect'', ''vol1'']]) \<and>
   volume_inspect_result (Volume_init [''docker''] ''vol1'') = None \<and>
   Volume_created_at (sample_env\<lparr>run_out := (\<lambda>w cmd. Inl InvocationError)\<rparr>)
      (Volume_init [''docker''] ''vol1'') sample_now
      [[''docker'', ''volume'', ''inspect'', ''vol1'']] =
     (Inl TypeError, Volume_init [''docker''] ''vol1'',
      [[''docker'', ''volume'', ''inspect'', ''vol1'']])"
  by (simp add: reload_cases created_at_raises Volume_init_def)

section \<open>The collection clients\<close>


text \<open>
  Claim C8: \<^verbatim>\<open>inspect\<close> of one reference returns the one handle the constructor builds
  from it, or raises what the constructor raises. For a list of references, whenever
  each call of the constructor succeeds, the call for the \<open>i\<close>-th reference being made
  in the world the calls before it have left, \<^verbatim>\<open>inspect\<close> returns a list of handles of
  the same length whose \<open>i\<close>-th element is the handle built from the \<open>i\<close>-th reference;
  every list \<^verbatim>\<open>inspect\<close> returns is of that form; and when the call for the reference
  at index \<open>k\<close> is the first to raise, \<^verbatim>\<open>inspect\<close> raises that error after these \<open>k + 1\<close>
  calls and no other.
\<close>

theorem inspect_one_handle_per_reference:
  "(NetworkCLI_inspect mk (Single r) w =
      (case mk r False w of
         (Inl e, w') \<Rightarrow> (Inl e, w')
       | (Inr h, w') \<Rightarrow> (Inr (OneNetwork h), w'))) \<and>
   ((\<forall>i<length rs. \<exists>h.
        fst (mk (rs ! i) False (ctor_world mk False (take i rs) w)) = Inr h) \<longrightarrow>
      (\<exists>hs. NetworkCLI_inspect mk (Many rs) w =
               (Inr (NetworkList hs), ctor_world mk False rs w) \<and>
            length hs = length rs \<and>
            (\<forall>i<length rs.
               fst (mk (rs ! i) False (ctor_world mk False (take i rs) w)) = Inr (hs ! i)))) \<and>
   (NetworkCLI_inspect mk (Many rs) w = (Inr y, w') \<longrightarrow>
      (\<exists>hs. y = NetworkList hs \<and> length hs = length rs \<and>
         w' = ctor_world mk False rs w \<and>
         (\<forall>i<length rs.
            fst (mk (rs ! i) False (ctor_world mk False (take i rs) w)) = Inr (hs ! i)))) \<and>
   (k < length rs \<and>
    (\<forall>i<k. \<exists>h. fst (mk (rs ! i) False (ctor_world mk False (take i rs) w)) = Inr h) \<and>
    fst (mk (rs ! k) False (ctor_world mk False (take k rs) w)) = Inl e \<longrightarrow>
      NetworkCLI_inspect mk (Many rs) w =
        (Inl e, ctor_world mk False (take (Suc k) rs) w))"
proof (intro conjI impI)
  show "NetworkCLI_inspect mk (Single r) w =
      (case mk r False w of
         (Inl e, w') \<Rightarrow> (Inl e, w')
       | (Inr h, w') \<Rightarrow> (Inr (OneNetwork h), w'))"
    by (simp add: NetworkCLI_inspect_def)
next
  assume "\<forall>i<length rs. \<exists>h.
        fst (mk (rs ! i) False (ctor_world mk False (take i rs) w)) = Inr h"
  then show "\<exists>hs. NetworkCLI_inspect mk (Many rs) w =
               (Inr (NetworkList hs), ctor_world mk False rs w) \<and>
            length hs = length rs \<and>
            (\<forall>i<length rs.
               fst (mk (rs ! i) False (ctor_world mk False (take i rs) w)) = Inr (hs ! i))"
    by (rule inspect_many_total)
next
  assume "NetworkCLI_inspect mk (Many rs) w = (Inr y, w')"
  then show "\<exists>hs. y = NetworkList hs \<and> length hs = length rs \<and>
         w' = ctor_world mk False rs w \<and>
         (\<forall>i<length rs.
            fst (mk (rs ! i) False (ctor_world mk False (take i rs) w)) = Inr (hs ! i))"
    by (simp add: inspect_many_iff)
next
  assume "k < length rs \<and>
    (\<forall>i<k. \<exists>h. fst (mk (rs ! i) False (ctor_world mk False (take i rs) w)) = Inr h) \<and>
    fst (mk (rs ! k) False (ctor_world mk False (take k rs) w)) = Inl e"
  then show "NetworkCLI_inspect mk (Many rs) w =
        (Inl e, ctor_world mk False (take (Suc k) rs) w)"
    by (intro inspect_many_failure) simp_all
qed

text \<open>
  With a constructor that inspects each reference at once: \<^verbatim>\<open>inspect(["a", "b"])\<close>
  returns the two handles in the order of the input after two inspect commands,
  \<^verbatim>\<open>inspect("a")\<close> one handle after one command, and on an engine that fails from its
  second command on, \<^verbatim>\<open>inspect(["a", "b", "c"])\<close> raises after the command for \<^verbatim>\<open>"b"\<close>.
\<close>

theorem inspect_one_handle_per_reference_witness:
  "NetworkCLI_inspect (eager_ctor sample_env [''docker'']) (Many [''a'', ''b'']) [] =
     (Inr (NetworkList [(''a'', False), (''b'', False)]),
      [[''docker'', ''network'', ''inspect'', ''a''],
       [''docker'', ''network'', ''inspect'', ''b'']]) \<and>
   NetworkCLI_inspect (eager_ctor sample_env [''docker'']) (Single ''a'') [] =
     (Inr (OneNetwork (''a'', False)), [[''docker'', ''network'', ''inspect'', ''a'']]) \<and>
   NetworkCLI_inspect
      (eager_ctor (sample_env\<lparr>run_out := (\<lambda>w cmd. if w = [] then Inr sample_output
                                                   else Inl InvocationError)\<rparr>) [''docker''])
      (Many [''a'', ''b'', ''c'']) [] =
     (Inl InvocationError,
      [[''docker'', ''network'', ''inspect'', ''a''],
       [''docker'', ''network'', ''inspect'', ''b'']])"
proof -
  let ?mk = "eager_ctor sample_env [''docker'']"
  let ?E = "sample_env\<lparr>run_out := (\<lambda>w cmd. if w = [] then Inr sample_output
                                                   else Inl InvocationError)\<rparr>"
  note t = inspect_one_handle_per_reference
  have w0: "ctor_world ?mk False [] [] = []"
    and w1: "ctor_world ?mk False [''a''] [] = [[''docker'', ''network'', ''inspect'', ''a'']]"
    and w2: "ctor_world ?mk False [''a'', ''b''] [] =
          [[''docker'', ''network'', ''inspect'', ''a''],
           [''docker'', ''network'', ''inspect'', ''b'']]"
    by (simp_all add: ctor_world_def eager_ctor_def run_def sample_env_def)
  have ok: "\<forall>i<length [''a'', ''b'']. \<exists>h.
      fst (?mk ([''a'', ''b''] ! i) False (ctor_world ?mk False (take i [''a'', ''b'']) [])) = Inr h"
    by (auto simp: all_less_Suc_split w0 w1 eager_ctor_def run_def sample_env_def)
  from t [where mk = ?mk and rs = "[''a'', ''b'']" and w = "[]"] ok
  obtain hs where
    r: "NetworkCLI_inspect ?mk (Many [''a'', ''b'']) [] =
          (Inr (NetworkList hs), ctor_world ?mk False [''a'', ''b''] [])"
    and l: "length hs = length [''a'', ''b'']"
    and n: "\<forall>i<length [''a'', ''b''].
          fst (?mk ([''a'', ''b''] ! i) False (ctor_world ?mk False (take i [''a'', ''b'']) [])) =
          Inr (hs ! i)"
    by blast
  from l obtain x y where hs: "hs = [x, y]"
    by (cases hs; cases "tl hs"; cases "tl (tl hs)") auto
  from n hs have "x = (''a'', False)" "y = (''b'', False)"
    by (simp_all add: all_less_Suc_split w0 w1 eager_ctor_def run_def sample_env_def)
  with r hs w2 have many:
    "NetworkCLI_inspect ?mk (Many [''a'', ''b'']) [] =
       (Inr (NetworkList [(''a'', False), (''b'', False)]),
        [[''docker'', ''network'', ''inspect'', ''a''],
         [''docker'', ''network'', ''inspect'', ''b'']])"
    by simp
  have single:
    "NetworkCLI_inspect ?mk (Single ''a'') [] =
       (Inr (OneNetwork (''a'', False)), [[''docker'', ''network'', ''inspect'', ''a'']])"
    using t [where mk = ?mk and r = "''a''" and w = "[]"]
    by (simp add: eager_ctor_def run_def sample_env_def)
  let ?mkE = "eager_ctor ?E [''docker'']"
  have f0: "ctor_world ?mkE False [] [] = []"
    and f1: "ctor_world ?mkE False [''a''] [] =
          [[''docker'', ''network'', ''inspect'', ''a'']]"
    and f2: "ctor_world ?mkE False [''a'', ''b''] [] =
          [[''docker'', ''network'', ''inspect'', ''a''],
           [''docker'', ''network'', ''inspect'', ''b'']]"
    by (simp_all add: ctor_world_def eager_ctor_def run_def)
  have prem: "Suc 0 < length [''a'', ''b'', ''c''] \<and>
      (\<forall>i<Suc 0. \<exists>h.
         fst (?mkE ([''a'', ''b'', ''c''] ! i) False
                (ctor_world ?mkE False (take i [''a'', ''b'', ''c'']) [])) = Inr h) \<and>
      fst (?mkE ([''a'', ''b'', ''c''] ! Suc 0) False
             (ctor_world ?mkE False (take (Suc 0) [''a'', ''b'', ''c'']) [])) =
        Inl InvocationError"
    by (auto simp: f0 f1 eager_ctor_def run_def)
  from t [where mk = ?mkE and rs = "[''a'', ''b'', ''c'']" and w = "[]"
        and k = "Suc 0" and e = InvocationError] prem
  have "NetworkCLI_inspect ?mkE (Many [''a'', ''b'', ''c'']) [] =
      (Inl InvocationError, ctor_world ?mkE False (take (Suc (Suc 0)) [''a'', ''b'', ''c'']) [])"
    by blast
  with f2 have failure:
    "NetworkCLI_inspect ?mkE (Many [''a'', ''b'', ''c'']) [] =
       (Inl InvocationError,
        [[''docker'', ''network'', ''inspect'', ''a''],
         [''docker'', ''network'', ''inspect'', ''b'']])"
    by simp
  from many single failure show ?thesis by simp
qed




text \<open>
  Claim C10: a \<^verbatim>\<open>create\<close> call whose labels are \<^verbatim>\<open>{"env": "prod"}\<close> builds a command that
  contains \<^verbatim>\<open>--label\<close> immediately followed by \<^verbatim>\<open>env=prod\<close>; every item of any labels
  mapping appears as such a consecutive pair; the label part of the command is one
  \<^verbatim>\<open>--label key=value\<close> pair for each item, in order; and this command is the one handed
  to the subprocess.
\<close>

theorem create_label_flags:
  "(\<exists>pre post. VolumeCLI_create_cmd dc vn drv [(''env'', ''prod'')] opts =
       pre @ [''--label'', ''env=prod''] @ post) \<and>
   ((k, v) \<in> set labels \<longrightarrow>
      (\<exists>pre post. VolumeCLI_create_cmd dc vn drv labels opts =
         pre @ [''--label'', k @ ''='' @ v] @ post)) \<and>
   VolumeCLI_create_cmd dc vn drv labels opts =
     dc @ [''volume'', ''create''] @
     (case vn of None \<Rightarrow> [] | Some n \<Rightarrow> [n]) @
     (case drv of None \<Rightarrow> [] | Some d \<Rightarrow> [''--driver'', d]) @
     concat (map (\<lambda>(k, v). [''--label'', k @ ''='' @ v]) labels) @
     concat (map (\<lambda>(k, v). [''--opt'', k @ ''='' @ v]) opts) \<and>
   snd (VolumeCLI_create E dc vn drv labels opts w) =
     w @ [VolumeCLI_create_cmd dc vn drv labels opts]"
proof (intro conjI impI)
  show "\<exists>pre post. VolumeCLI_create_cmd dc vn drv [(''env'', ''prod'')] opts =
       pre @ [''--label'', ''env=prod''] @ post"
    using create_cmd_has_label [of "''env''" "''prod''" "[(''env'', ''prod'')]" dc vn drv opts]
    by simp
next
  assume "(k, v) \<in> set labels"
  then show "\<exists>pre post. VolumeCLI_create_cmd dc vn drv labels opts =
         pre @ [''--label'', k @ ''='' @ v] @ post"
    by (rule create_cmd_has_label)
next
  show "VolumeCLI_create_cmd dc vn drv labels opts =
     dc @ [''volume'', ''create''] @
     (case vn of None \<Rightarrow> [] | Some n \<Rightarrow> [n]) @
     (case drv of None \<Rightarrow> [] | Some d \<Rightarrow> [''--driver'', d]) @
     concat (map (\<lambda>(k, v). [''--label'', k @ ''='' @ v]) labels) @
     concat (map (\<lambda>(k, v). [''--opt'', k @ ''='' @ v]) opts)"
    by (rule create_cmd_eq)
next
  show "snd (VolumeCLI_create E dc vn drv labels opts w) =
     w @ [VolumeCLI_create_cmd dc vn drv labels opts]"
    by (simp add: VolumeCLI_create_def run_def split: sum.splits)
qed

text \<open>
  The second of two labels: \<^verbatim>\<open>--label tier=db\<close> is in the command of a \<^verbatim>\<open>create\<close> call
  with the labels \<^verbatim>\<open>{"env": "prod", "tier": "db"}\<close>.
\<close>

theorem create_label_flags_witness:
  "(''tier'', ''db'') \<in> set [(''env'', ''prod''), (''tier'', ''db'')] \<and>
   (\<exists>pre post. VolumeCLI_create_cmd [''docker''] (Some ''vol1'') None
        [(''env'', ''prod''), (''tier'', ''db'')] [] =
      pre @ [''--label'', ''tier=db''] @ post)"
proof -
  have m: "(''tier'', ''db'') \<in> set [(''env'', ''prod''), (''tier'', ''db'')]"
    by simp
  from create_label_flags [of "[''docker'']" "Some ''vol1''" None "[]" "''tier''" "''db''"
      "[(''env'', ''prod''), (''tier'', ''db'')]"] m
  have "\<exists>pre post. VolumeCLI_create_cmd [''docker''] (Some ''vol1'') None
        [(''env'', ''prod''), (''tier'', ''db'')] [] =
      pre @ [''--label'', ''tier'' @ ''='' @ ''db''] @ post"
    by blast
  with m show ?thesis by simp
qed

end
